theory Spec2Isabelle
  imports Main
begin

section \<open>JavaScript strings\<close>

text \<open>
  A JavaScript string is modelled as a \<^typ>\<open>string\<close>; a character stands for a UTF-16
  code unit in the range 0..255. The string methods the converter calls are written out
  below with the results JavaScript gives on such strings.
\<close>

text \<open>\<^verbatim>\<open>s.endsWith(suf)\<close>\<close>

definition endsWith :: "string \<Rightarrow> string \<Rightarrow> bool" where
  "endsWith s suf = (length suf \<le> length s \<and> drop (length s - length suf) s = suf)"

text \<open>\<^verbatim>\<open>s.slice(0, -n)\<close> for a positive \<open>n\<close>\<close>

definition sliceEnd :: "string \<Rightarrow> nat \<Rightarrow> string" where
  "sliceEnd s n = take (length s - n) s"

text \<open>\<^verbatim>\<open>s.startsWith(pre)\<close>\<close>

definition startsWith :: "string \<Rightarrow> string \<Rightarrow> bool" where
  "startsWith s pre = (take (length pre) s = pre)"

text \<open>\<^verbatim>\<open>xs.join(sep)\<close>\<close>

fun join :: "string \<Rightarrow> string list \<Rightarrow> string" where
  "join sep [] = []"
| "join sep [x] = x"
| "join sep (x # y # ys) = x @ sep @ join sep (y # ys)"

text \<open>\<^verbatim>\<open>s.split(sep)\<close> for a separator of one character\<close>

fun split :: "char \<Rightarrow> string \<Rightarrow> string list" where
  "split sep [] = [[]]"
| "split sep (c # cs) =
     (if c = sep then [] # split sep cs
      else (case split sep cs of [] \<Rightarrow> [[c]] | w # ws \<Rightarrow> (c # w) # ws))"

text \<open>
  \<^verbatim>\<open>s.toLowerCase()\<close>: the letters A..Z and the Latin-1 capitals (0xC0..0xDE but the
  multiplication sign 0xD7) move up by 32; every other code unit below 256 stays.
\<close>

definition toLowerChar :: "char \<Rightarrow> char" where
  "toLowerChar c =
     (let n = (of_char c :: nat)
      in if (65 \<le> n \<and> n \<le> 90) \<or> (192 \<le> n \<and> n \<le> 222 \<and> n \<noteq> 215)
         then char_of (n + 32) else c)"

definition toLowerCase :: "string \<Rightarrow> string" where
  "toLowerCase s = map toLowerChar s"

text \<open>
  \<^verbatim>\<open>s.trim()\<close>: the white space of JavaScript below 256 is tab, line feed, vertical tab,
  form feed, carriage return, space and the no-break space.
\<close>

definition isWhiteSpace :: "char \<Rightarrow> bool" where
  "isWhiteSpace c = ((of_char c :: nat) \<in> {9, 10, 11, 12, 13, 32, 160})"

definition trim :: "string \<Rightarrow> string" where
  "trim s = rev (dropWhile isWhiteSpace (rev (dropWhile isWhiteSpace s)))"

text \<open>
  \<^verbatim>\<open>s.replace(/-{3,}/g, '--')\<close>: scanning from the left, every maximal run of three or
  more hyphens is replaced by two hyphens; shorter runs and all other characters stay.
\<close>

function collapseHyphens :: "string \<Rightarrow> string" where
  "collapseHyphens [] = []"
| "collapseHyphens (c # cs) =
     (if c = CHR ''-'' then
        (let run = takeWhile (\<lambda>x. x = CHR ''-'') (c # cs);
             rest = dropWhile (\<lambda>x. x = CHR ''-'') (c # cs)
         in (if 3 \<le> length run then ''--'' else run) @ collapseHyphens rest)
      else c # collapseHyphens cs)"
  by pat_completeness auto
termination
  by (relation "measure length") (auto simp: less_Suc_eq_le length_dropWhile_le)

text \<open>\<^verbatim>\<open>s.replace(/[\t]/g, ' ')\<close>\<close>

definition tabsToSpaces :: "string \<Rightarrow> string" where
  "tabsToSpaces s = map (\<lambda>c. if c = CHR 0x09 then CHR '' '' else c) s"

text \<open>\<^verbatim>\<open>/^https?:\/\//g.test(s)\<close> on a fresh regular expression\<close>

definition isHttpUrl :: "string \<Rightarrow> bool" where
  "isHttpUrl s = (startsWith s ''http://'' \<or> startsWith s ''https://'')"

text \<open>A value that may be \<^verbatim>\<open>undefined\<close>, interpolated into a template literal.\<close>

definition interpolate :: "string option \<Rightarrow> string" where
  "interpolate v = (case v of None \<Rightarrow> ''undefined'' | Some s \<Rightarrow> s)"

text \<open>\<^verbatim>\<open>v || ''\<close>\<close>

definition orEmpty :: "string option \<Rightarrow> string" where
  "orEmpty v = (case v of None \<Rightarrow> [] | Some s \<Rightarrow> s)"

text \<open>The truth value of a string that may be \<^verbatim>\<open>undefined\<close>: false when absent or empty.\<close>

definition truthy :: "string option \<Rightarrow> bool" where
  "truthy v = (case v of None \<Rightarrow> False | Some s \<Rightarrow> s \<noteq> [])"

text \<open>An integer number interpolated into a template literal.\<close>

definition digitChar :: "nat \<Rightarrow> char" where
  "digitChar d = char_of (48 + d)"

function showNat :: "nat \<Rightarrow> string" where
  "showNat n = (if n < 10 then [digitChar n] else showNat (n div 10) @ [digitChar (n mod 10)])"
  by pat_completeness auto
termination
  by (relation "measure id") auto

definition showInt :: "int \<Rightarrow> string" where
  "showInt i = (if i < 0 then CHR ''-'' # showNat (nat (- i)) else showNat (nat i))"

text \<open>The number of places of a text at which a pattern starts.\<close>

fun occurrences :: "string \<Rightarrow> string \<Rightarrow> nat" where
  "occurrences pat [] = 0"
| "occurrences pat (c # cs) = (if startsWith (c # cs) pat then 1 else 0) + occurrences pat cs"

section \<open>The node tree of the external parser\<close>

text \<open>
  The converter reads a node through its accessors only. A node is modelled by the values
  its accessors return (\<open>nodeProps\<close>) and by its child blocks. Content that the parser
  has already rendered (\<^verbatim>\<open>getContent()\<close>, \<^verbatim>\<open>getText()\<close>, the content of a table
  cell) is a string of the node: the calls that the parser makes back into the converter
  while it builds such a string are not part of the model. Every node carries every
  accessor. The head rows that \<^verbatim>\<open>getHeadRows()\<close> returns are the \<^verbatim>\<open>head\<close> of
  \<^verbatim>\<open>getRows()\<close>; the rows of a description list, which its \<^verbatim>\<open>getBlocks()\<close> returns, are
  \<open>getRowBlocks\<close>.
\<close>

type_synonym document = "string \<Rightarrow> string option"

text \<open>A column of a description list row: an inline node, read through
  \<^verbatim>\<open>getText()\<close>, or an array of columns.\<close>

datatype dcol = Inline string | InlineArray "dcol list"

record nodeProps =
  getNodeName :: string
  getDocument :: document
  getTarget :: "string option"
  getRole :: "string option"
  getText :: string
  getContent :: string
  getTitle :: "string option"
  getLevel :: int
  getStyle :: "string option"
  getType :: string
  getAttribute :: "string \<Rightarrow> string option"
  getHeadRows :: "string list list"
  getBodyRows :: "string list list"
  getFootRows :: "string list list"
  getRowBlocks :: "dcol list list"

datatype node = Node (props: nodeProps) (getBlocks: "node list")

typedecl convertOpts

section \<open>Collaborators and the converter's state\<close>

text \<open>
  An exception: a TypeError raised by the converter's own code (a method called on
  \<^verbatim>\<open>undefined\<close>, a call of what is no function), or whatever a collaborator throws.
\<close>

datatype error = TypeError string | Thrown string

text \<open>
  What \<open>convert\<close> returns when it returns: a string, or, in one case, the node object it
  was given.
\<close>

datatype jsValue = Str string | Obj node

text \<open>
  What the converter calls but does not define: the class-name helper \<^verbatim>\<open>toClassName\<close>;
  the book, which the options may leave out, with its \<^verbatim>\<open>resolve\<close>; the parser's HTML5
  converter, which returns a string or throws; the string that JavaScript makes of a node
  object where it needs one; and the platform's \<^verbatim>\<open>URL\<close> class (\<^verbatim>\<open>new URL(s)\<close> is
  \<open>None\<close> when the constructor throws). The topic path is the constructor's argument.
\<close>

record 'u env =
  toClassName :: "string \<Rightarrow> string"
  book :: "(string \<Rightarrow> string) option"
  topicPath :: string
  baseConvert :: "node \<Rightarrow> string option \<Rightarrow> convertOpts option \<Rightarrow> error + string"
  nodeToString :: "node \<Rightarrow> string"
  newURL :: "string \<Rightarrow> 'u option"
  urlHostname :: "'u \<Rightarrow> string"
  urlSetHostname :: "'u \<Rightarrow> string \<Rightarrow> 'u"
  urlToString :: "'u \<Rightarrow> string"

text \<open>
  A call of the console: its level and its string arguments (a node passed to the console
  is not recorded).
\<close>

datatype logLevel = Debug | Info | Warn | Error

type_synonym logEntry = "logLevel \<times> string list"

text \<open>
  The state of a converter. The depth counter is a JavaScript number that starts at 0 and
  moves by 1; it is an integer here, which is what the number is for every depth below
  \<open>2 ^ 53\<close>.
\<close>

record converter =
  sectionDepth :: int
  inSection :: bool
  doc :: "document option"
  console :: "logEntry list"

definition newConverter :: converter where
  "newConverter = \<lparr>sectionDepth = 0, inSection = False, doc = None, console = []\<rparr>"

definition logTo :: "logEntry \<Rightarrow> converter \<Rightarrow> converter" where
  "logTo e s = s\<lparr>console := console s @ [e]\<rparr>"

text \<open>\<^verbatim>\<open>topicPath.split('/').slice(0, -1).join('/')\<close>\<close>

definition topicDirPath :: "'u env \<Rightarrow> string" where
  "topicDirPath env = join ''/'' (butlast (split CHR ''/'' (topicPath env)))"

section \<open>The block wrapper and the table flattener\<close>

definition makeBlock :: "'u env \<Rightarrow> string \<Rightarrow> string \<Rightarrow> string list \<Rightarrow> bool \<Rightarrow> string" where
  \<open>makeBlock env name content variants singleCell =
     (let variantStr = join '' '' (map (toClassName env) variants)
      in ''\<newline>      <div class="'' @ toClassName env name
           @ (if variantStr \<noteq> [] then '' '' @ variantStr else []) @ ''">\<newline>        ''
           @ (if singleCell then ''<div><div>\<newline>'' else [])
           @ trim content
           @ (if singleCell then ''\<newline></div></div>'' else [])
           @ ''\<newline>      </div>'')\<close>

definition processCols :: "string list \<Rightarrow> string" where
  "processCols cols = join [] (map (\<lambda>col. ''<div>'' @ col @ ''</div>'') cols)"

definition processRows :: "string list list \<Rightarrow> string" where
  "processRows rows = join ''\<newline>'' (map (\<lambda>row. ''<div>'' @ processCols row @ ''</div>'') rows)"

definition tableToBlock :: "'u env \<Rightarrow> string \<Rightarrow> node \<Rightarrow> string" where
  "tableToBlock env name node =
     (let head = getHeadRows (props node);
          body = getBodyRows (props node);
          foot = getFootRows (props node);
          content = ''\<newline>    '' @ processRows head @ ''\<newline>    '' @ processRows body
                      @ ''\<newline>    '' @ processRows foot;
          variants = (if length head = 0 then [''headless''] else [''''])
      in makeBlock env name content variants False)"

definition tableToTableBlock :: "'u env \<Rightarrow> node \<Rightarrow> string" where
  "tableToTableBlock env node = tableToBlock env ''table'' node"

section \<open>The renderers that convert no child node\<close>

definition paragraph_tpl :: "node \<Rightarrow> string" where
  "paragraph_tpl node = ''<p>'' @ getContent (props node) @ ''</p>''"

text \<open>
  The hostname written back by the anchor renderer:
  \<^verbatim>\<open>url.hostname.replace(/-{3,}/g, '--').toLowerCase()\<close>.
\<close>

definition normalizeHostname :: "string \<Rightarrow> string" where
  "normalizeHostname h = toLowerCase (collapseHyphens h)"

text \<open>
  In the include branch \<^verbatim>\<open>href.endsWith\<close> is called on the target as it is: when
  the target is \<^verbatim>\<open>undefined\<close> that call throws a TypeError; so does \<^verbatim>\<open>book.resolve\<close>
  when the options gave no book.
\<close>

definition inline_anchor :: "'u env \<Rightarrow> node \<Rightarrow> error + string" where
  \<open>inline_anchor env node =
     (let target = getTarget (props node);
          isInclude = (getRole (props node) = Some ''bare include'');
          variants = (if isInclude then [''include''] else []);
          href =
            (if truthy target then
               (let h = orEmpty target;
                    h1 = (if endsWith h ''.franklin'' then sliceEnd h (length ''.franklin'') else h)
                in Some (case newURL env h1 of
                           Some url \<Rightarrow>
                             urlToString env
                               (urlSetHostname env url (normalizeHostname (urlHostname env url)))
                         | None \<Rightarrow> h1))
             else target)
      in if isInclude then
           (case href of
              None \<Rightarrow> Inl (TypeError ''href is undefined: it has no endsWith'')
            | Some h \<Rightarrow>
                (let h1 = (if endsWith h ''.adoc'' then sliceEnd h (length ''.adoc'') else h);
                     relative = (\<not> isHttpUrl h1)
                 in if relative then
                      (case book env of
                         None \<Rightarrow> Inl (TypeError ''book is undefined: it has no resolve'')
                       | Some resolve \<Rightarrow>
                           (let h2 = resolve (topicDirPath env @ ''/'' @ h1)
                            in Inr (makeBlock env ''fragment''
                                      (''<a href="'' @ h2 @ ''">'' @ getText (props node)
                                         @ ''</a>'')
                                      (variants @ [''docs'']) True)))
                    else Inr (makeBlock env ''fragment''
                                (''<a href="'' @ h1 @ ''">'' @ getText (props node) @ ''</a>'')
                                variants True)))
         else Inr (''<a href="'' @ interpolate href @ ''">'' @ getText (props node) @ ''</a>''))\<close>

definition floating_title :: "node \<Rightarrow> converter \<Rightarrow> string \<times> converter" where
  "floating_title node s = ([], logTo (Error, [''NOT IMPLEMENTED: floating title: '']) s)"

definition embedded :: "node \<Rightarrow> string" where
  "embedded node = getContent (props node)"

definition thematic_break :: "node \<Rightarrow> string" where
  "thematic_break node = ''<hr>''"

definition literal :: "node \<Rightarrow> string" where
  "literal node =
     (let content = getContent (props node)
      in ''<pre><code>'' @ tabsToSpaces content @ ''</code></pre>'')"

definition admonition :: "node \<Rightarrow> string" where
  \<open>admonition node =
     (let style = orEmpty (getStyle (props node));
          title = trim (orEmpty (getTitle (props node)));
          title = (if title \<noteq> [] then ''<h6>'' @ title @ ''</h6>'' else title)
      in ''\<newline>          <div class="admonition '' @ toLowerCase style @ ''">\<newline>''
           @ ''            <div>\<newline>''
           @ ''              <div>\<newline>''
           @ ''                '' @ (if title \<noteq> [] then title @ ''\<newline>'' else [])
           @ getContent (props node) @ ''\<newline>''
           @ ''              </div>\<newline>''
           @ ''            </div>\<newline>''
           @ ''          </div>'')\<close>

definition listing :: "node \<Rightarrow> string" where
  "listing node = literal node"

definition inline_quoted :: "node \<Rightarrow> converter \<Rightarrow> string \<times> converter" where
  "inline_quoted node s =
     (let content = getText (props node);
          type = getType (props node)
      in if type = ''strong'' then (''<strong>'' @ content @ ''</strong>'', s)
         else if type = ''monospaced'' then (''<code>'' @ content @ ''</code>'', s)
         else if type = ''emphasis'' then (''<em>'' @ content @ ''</em>'', s)
         else (content, logTo (Warn, [''[inline_quoted] unhandled node: '', type]) s))"

fun convertCol :: "dcol \<Rightarrow> string" where
  "convertCol (InlineArray cols) = join [] (map convertCol cols)"
| "convertCol (Inline text) = ''<p>'' @ text @ ''</p>''"

definition dlist :: "node \<Rightarrow> string" where
  \<open>dlist node =
     (let rows = getRowBlocks (props node)
      in ''\<newline>          <div class="dlist">\<newline>            ''
           @ join [] (map (\<lambda>row. ''<div>''
                @ join [] (map (\<lambda>col. ''<div>'' @ convertCol col @ ''</div>'') row)
                @ ''</div>'') rows)
           @ ''\<newline>          </div>'')\<close>

definition image :: "'u env \<Rightarrow> node \<Rightarrow> error + string" where
  \<open>image env node =
     (let src = getAttribute (props node) ''target''
      in if \<not> truthy src then Inr []
         else (case book env of
                 None \<Rightarrow> Inl (TypeError ''book is undefined: it has no resolve'')
               | Some resolve \<Rightarrow>
                   (let href = resolve (''/_graphics/'' @ orEmpty src)
                    in Inr (''<img src="'' @ href @ ''" alt="''
                              @ orEmpty (getAttribute (props node) ''alt'')
                              @ ''" width="''
                              @ interpolate (getAttribute (props node) ''width'') @ ''">''))))\<close>

definition table :: "'u env \<Rightarrow> node \<Rightarrow> string" where
  "table env node =
     (let title = getTitle (props node);
          head = getHeadRows (props node)
      in if truthy title \<and> length head = 0 then
           (let block = tableToBlock env (orEmpty title) node
            in if block \<noteq> [] then block else tableToTableBlock env node)
         else tableToTableBlock env node)"

section \<open>The renderer registry and the dispatcher\<close>

datatype template =
  T_paragraph | T_inline_anchor | T_floating_title | T_embedded | T_thematic_break
| T_section | T_literal | T_admonition | T_listing | T_inline_quoted | T_ulist | T_dlist
| T_olist | T_list_item | T_image | T_table

text \<open>The keys of the \<^verbatim>\<open>templates\<close> object, in the order of the source.\<close>

definition templates :: "string \<Rightarrow> template option" where
  "templates = map_of
     [(''paragraph'', T_paragraph), (''inline_anchor'', T_inline_anchor),
      (''floating-title'', T_floating_title), (''embedded'', T_embedded),
      (''thematic_break'', T_thematic_break), (''section'', T_section),
      (''literal'', T_literal), (''admonition'', T_admonition), (''listing'', T_listing),
      (''inline_quoted'', T_inline_quoted), (''ulist'', T_ulist), (''dlist'', T_dlist),
      (''olist'', T_olist), (''list_item'', T_list_item), (''image'', T_image),
      (''table'', T_table)]"

text \<open>
  \<^verbatim>\<open>templates\<close> is an object literal, so \<^verbatim>\<open>this.templates[name]\<close> finds the keys
  above and, under any other name, what \<^verbatim>\<open>Object.prototype\<close> has: its twelve members.
\<close>

datatype inherited =
  Object_constructor | Object_toString | Object_toLocaleString | Object_valueOf
| Object_hasOwnProperty | Object_isPrototypeOf | Object_propertyIsEnumerable
| Object_proto | Object_defineGetter | Object_defineSetter | Object_lookupGetter
| Object_lookupSetter

definition objectPrototype :: "string \<Rightarrow> inherited option" where
  "objectPrototype = map_of
     [(''constructor'', Object_constructor), (''toString'', Object_toString),
      (''toLocaleString'', Object_toLocaleString), (''valueOf'', Object_valueOf),
      (''hasOwnProperty'', Object_hasOwnProperty), (''isPrototypeOf'', Object_isPrototypeOf),
      (''propertyIsEnumerable'', Object_propertyIsEnumerable), (''__proto__'', Object_proto),
      (''__defineGetter__'', Object_defineGetter), (''__defineSetter__'', Object_defineSetter),
      (''__lookupGetter__'', Object_lookupGetter), (''__lookupSetter__'', Object_lookupSetter)]"

datatype member = Renderer template | Inherited inherited

definition lookupTemplate :: "string \<Rightarrow> member option" where
  "lookupTemplate name =
     (case templates name of
        Some t \<Rightarrow> Some (Renderer t)
      | None \<Rightarrow> map_option Inherited (objectPrototype name))"

text \<open>
  \<^verbatim>\<open>template(node)\<close> for an inherited member, called with no \<^verbatim>\<open>this\<close> in strict code:
  \<^verbatim>\<open>Object(node)\<close> is the node itself, \<^verbatim>\<open>toString\<close> answers for \<^verbatim>\<open>undefined\<close>, the value
  under \<^verbatim>\<open>__proto__\<close> is an object and no function, and every other member first turns
  \<^verbatim>\<open>this\<close> into an object, which throws.
\<close>

definition callInherited :: "inherited \<Rightarrow> node \<Rightarrow> error + jsValue" where
  "callInherited m node =
     (case m of
        Object_constructor \<Rightarrow> Inr (Obj node)
      | Object_toString \<Rightarrow> Inr (Str ''[object Undefined]'')
      | Object_proto \<Rightarrow> Inl (TypeError ''template is not a function'')
      | _ \<Rightarrow> Inl (TypeError ''Cannot convert undefined or null to object''))"

text \<open>The result of a renderer that returns a string, as a result of \<open>convert\<close>.\<close>

definition asValue :: "(error + string) \<times> converter \<Rightarrow> (error + jsValue) \<times> converter" where
  "asValue r = (map_sum id Str (fst r), snd r)"

text \<open>The string that \<^verbatim>\<open>join\<close> writes for an element of an array.\<close>

definition stringOf :: "'u env \<Rightarrow> jsValue \<Rightarrow> string" where
  "stringOf env v = (case v of Str s \<Rightarrow> s | Obj node \<Rightarrow> nodeToString env node)"

text \<open>
  \<open>convert\<close> is the dispatcher. \<open>convertBlocks\<close> is
  \<^verbatim>\<open>blocks.map((block) => this.convert(block))\<close>, from left to right, stopping at the first
  exception, with each result as the string that the \<^verbatim>\<open>join\<close> applied to the array
  writes for it. A result is the returned value, or the exception thrown, with the
  converter's state at that moment. An exception of the base converter is not caught.
\<close>

function (sequential) convert :: "'u env \<Rightarrow> node \<Rightarrow> string option \<Rightarrow> convertOpts option \<Rightarrow> converter
                  \<Rightarrow> (error + jsValue) \<times> converter"
  and convertBlocks :: "'u env \<Rightarrow> node list \<Rightarrow> converter \<Rightarrow> (error + string list) \<times> converter"
  and section_tpl :: "'u env \<Rightarrow> node \<Rightarrow> converter \<Rightarrow> (error + string) \<times> converter"
  and ulist :: "'u env \<Rightarrow> node \<Rightarrow> converter \<Rightarrow> (error + string) \<times> converter"
  and olist :: "'u env \<Rightarrow> node \<Rightarrow> converter \<Rightarrow> (error + string) \<times> converter"
  and list_item :: "'u env \<Rightarrow> node \<Rightarrow> converter \<Rightarrow> (error + string) \<times> converter"
where
  "convert env (Node p bs) transform opts s =
     (let name = (if truthy transform then orEmpty transform else getNodeName p);
          s1 = logTo (Debug, [''convert node: transform='' @ interpolate transform
                                @ '' name='' @ name]) s;
          s2 = s1\<lparr>doc := Some (getDocument p)\<rparr>
      in case lookupTemplate name of
           Some (Renderer T_paragraph) \<Rightarrow> (Inr (Str (paragraph_tpl (Node p bs))), s2)
         | Some (Renderer T_inline_anchor) \<Rightarrow> asValue (inline_anchor env (Node p bs), s2)
         | Some (Renderer T_floating_title) \<Rightarrow>
             (case floating_title (Node p bs) s2 of (content, s3) \<Rightarrow> (Inr (Str content), s3))
         | Some (Renderer T_embedded) \<Rightarrow> (Inr (Str (embedded (Node p bs))), s2)
         | Some (Renderer T_thematic_break) \<Rightarrow> (Inr (Str (thematic_break (Node p bs))), s2)
         | Some (Renderer T_section) \<Rightarrow> asValue (section_tpl env (Node p bs) s2)
         | Some (Renderer T_literal) \<Rightarrow> (Inr (Str (literal (Node p bs))), s2)
         | Some (Renderer T_admonition) \<Rightarrow> (Inr (Str (admonition (Node p bs))), s2)
         | Some (Renderer T_listing) \<Rightarrow> (Inr (Str (listing (Node p bs))), s2)
         | Some (Renderer T_inline_quoted) \<Rightarrow>
             (case inline_quoted (Node p bs) s2 of (content, s3) \<Rightarrow> (Inr (Str content), s3))
         | Some (Renderer T_ulist) \<Rightarrow> asValue (ulist env (Node p bs) s2)
         | Some (Renderer T_dlist) \<Rightarrow> (Inr (Str (dlist (Node p bs))), s2)
         | Some (Renderer T_olist) \<Rightarrow> asValue (olist env (Node p bs) s2)
         | Some (Renderer T_list_item) \<Rightarrow> asValue (list_item env (Node p bs) s2)
         | Some (Renderer T_image) \<Rightarrow> asValue (image env (Node p bs), s2)
         | Some (Renderer T_table) \<Rightarrow> (Inr (Str (table env (Node p bs))), s2)
         | Some (Inherited m) \<Rightarrow> (callInherited m (Node p bs), s2)
         | None \<Rightarrow>
             (let s3 = logTo (Warn, [''handling node with base template...'', name]) s2
              in case baseConvert env (Node p bs) transform opts of
                   Inl e \<Rightarrow> (Inl e, s3)
                 | Inr defaultContent \<Rightarrow>
                     (Inr (Str defaultContent),
                      logTo (Info, [''handled node with base template: '', name,
                                    defaultContent]) s3)))"
| "convertBlocks env [] s = (Inr [], s)"
| "convertBlocks env (b # bs) s =
     (case convert env b None None s of
        (Inl e, s1) \<Rightarrow> (Inl e, s1)
      | (Inr h, s1) \<Rightarrow>
          (case convertBlocks env bs s1 of
             (Inl e, s2) \<Rightarrow> (Inl e, s2)
           | (Inr hs, s2) \<Rightarrow> (Inr (stringOf env h # hs), s2)))"
| "section_tpl env (Node p bs) s =
     (let level = getLevel p;
          title = getTitle p;
          tag = ''h'' @ showInt (level + 1);
          closer = (if 0 < sectionDepth s then ''</div>'' else []);
          s1 = s\<lparr>sectionDepth := sectionDepth s + 1\<rparr>
      in case convertBlocks env bs s1 of
           (Inl e, s2) \<Rightarrow> (Inl e, s2)
         | (Inr rendered, s2) \<Rightarrow>
             (let content = ''\<newline>          ''
                    @ (if truthy title
                       then ''<'' @ tag @ ''>'' @ orEmpty title @ ''</'' @ tag @ ''>'' else [])
                    @ ''\<newline>          '' @ join ''\<newline>'' rendered;
                  wrapper = closer @ ''<div>'' @ content
                    @ (if closer \<noteq> [] then [] else ''</div>'')
              in (Inr wrapper, s2\<lparr>sectionDepth := sectionDepth s2 - 1\<rparr>)))"
| "ulist env (Node p bs) s =
     (case convertBlocks env bs s of
        (Inl e, s1) \<Rightarrow> (Inl e, s1)
      | (Inr rendered, s1) \<Rightarrow>
          (let content = join [] rendered
           in (Inr (if content \<noteq> [] then ''<ul>'' @ content @ ''</ul>'' else []), s1)))"
| "olist env (Node p bs) s =
     (case convertBlocks env bs s of
        (Inl e, s1) \<Rightarrow> (Inl e, s1)
      | (Inr rendered, s1) \<Rightarrow>
          (let content = join [] rendered;
               list = (if content \<noteq> [] then ''<ol>'' @ content @ ''</ol>'' else [])
           in if getAttribute p ''role'' \<noteq> Some ''procedure'' then (Inr list, s1)
              else (Inr (makeBlock env ''procedure'' list [] True), s1)))"
| "list_item env (Node p bs) s =
     (let baseContent = getContent p;
          text = getText p
      in if text = [] \<and> baseContent = [] then (Inr [], s)
         else
           (case convertBlocks env bs s of
              (Inl e, s1) \<Rightarrow> (Inl e, s1)
            | (Inr rendered, s1) \<Rightarrow>
                (let content = join [] rendered;
                     content = (if content = [] then baseContent else content);
                     result = ''<li>''
                       @ (if text \<noteq> [] then ''<p>'' @ text @ ''</p>'' @ content else [])
                       @ ''</li>''
                 in (Inr result, s1))))"
  by pat_completeness auto
termination
  by (relation "measure (\<lambda>x. case x of
          Inl (Inl (env, n, t, opts, s)) \<Rightarrow> 2 * size n + 1
        | Inl (Inr (Inl (env, bs, s))) \<Rightarrow> 2 * size_list size bs + 1
        | Inl (Inr (Inr (env, n, s))) \<Rightarrow> 2 * size n
        | Inr (Inl (env, n, s)) \<Rightarrow> 2 * size n
        | Inr (Inr (Inl (env, n, s))) \<Rightarrow> 2 * size n
        | Inr (Inr (Inr (env, n, s))) \<Rightarrow> 2 * size n)") simp_all

section \<open>The entry point\<close>

text \<open>
  The tree of \<^verbatim>\<open>hast\<close> that \<^verbatim>\<open>fromHtml\<close> returns for a fragment is the list of
  the root's children.
\<close>

datatype hast =
  Element (tagName: string) (properties: "(string \<times> string) list") (children: "hast list")
| Text string
| Comment string
| Doctype

text \<open>
  The libraries \<^verbatim>\<open>adoc2html\<close> calls: the parser's \<^verbatim>\<open>convert\<close>, which is given the
  converter registered for the backend, the source text, the backend and the attributes
  (its other processor options pass through unchanged and are part of this collaborator),
  and which returns the HTML or throws, as it does when an exception leaves the converter;
  and the parser and the serializer of \<^verbatim>\<open>hast\<close>.
\<close>

record libs =
  asciidoctorConvert ::
    "(node \<Rightarrow> string option \<Rightarrow> convertOpts option \<Rightarrow> converter \<Rightarrow> (error + jsValue) \<times> converter)
      \<Rightarrow> string \<Rightarrow> string \<Rightarrow> (string \<Rightarrow> string option) option \<Rightarrow> error + string"
  fromHtml :: "string \<Rightarrow> hast list"
  toHtml :: "hast list \<Rightarrow> string"

text \<open>
  The options of \<^verbatim>\<open>adoc2html\<close>; the book and the topic path among them are the
  \<open>book\<close> and the \<open>topicPath\<close> of the converter's collaborators.
\<close>

record options =
  backend :: "string option"
  attributes :: "(string \<Rightarrow> string option) option"
  plain :: "bool option"

definition wrappedElements :: "string list" where
  "wrappedElements = [''ol'', ''ul'']"

definition wrapLists :: "hast list \<Rightarrow> hast list" where
  "wrapLists tree =
     map (\<lambda>element.
            case element of
              Element t ps cs \<Rightarrow>
                if t \<noteq> [] \<and> t \<in> set wrappedElements
                then Element ''div'' [] [Element t ps cs] else element
            | _ \<Rightarrow> element) tree"

definition pageHead :: string where
  \<open>pageHead =
     ''\<newline>  <!DOCTYPE html>\<newline>''
     @ ''  <html>\<newline>''
     @ ''    <head>\<newline>''
     @ ''      <meta name="viewport" content="width=device-width, initial-scale=1">\<newline>''
     @ ''      <script src="/scripts/scripts.js" type="module"></script>\<newline>''
     @ ''      <link rel="stylesheet" href="/styles/styles.css">\<newline>''
     @ ''      <link rel="icon" href="data:,">\<newline>''
     @ ''    </head>\<newline>''
     @ ''    \<newline>''
     @ ''    <body>\<newline>''
     @ ''      <header></header>\<newline>''
     @ ''      <main>\<newline>''
     @ ''        ''\<close>

definition pageTail :: string where
  "pageTail =
     ''\<newline>      </main>\<newline>''
     @ ''      <footer></footer>\<newline>''
     @ ''    </body>\<newline>''
     @ ''  </html>''"

text \<open>
  The tree after the fix-up pass over the root's children; an exception of the parser's
  \<^verbatim>\<open>convert\<close> is not caught.
\<close>

definition renderTree :: "libs \<Rightarrow> 'u env \<Rightarrow> string \<Rightarrow> options \<Rightarrow> error + hast list" where
  "renderTree lib env content opts =
     (case asciidoctorConvert lib (convert env) content
             (case backend opts of None \<Rightarrow> ''franklin'' | Some b \<Rightarrow> b)
             (attributes opts) of
        Inl e \<Rightarrow> Inl e
      | Inr html \<Rightarrow> Inr (wrapLists (fromHtml lib html)))"

definition adoc2html :: "libs \<Rightarrow> 'u env \<Rightarrow> string \<Rightarrow> options \<Rightarrow> error + string" where
  "adoc2html lib env content opts =
     (case renderTree lib env content opts of
        Inl e \<Rightarrow> Inl e
      | Inr tree \<Rightarrow>
          Inr (if plain opts = Some True then toHtml lib tree
               else pageHead @ toHtml lib tree @ pageTail))"

section \<open>A model of the URL class on plain http(s) addresses\<close>

text \<open>
  The platform's \<^verbatim>\<open>URL\<close> class is a collaborator. For worked inputs it is modelled,
  after the URL standard, on the addresses \<^verbatim>\<open>scheme://host/path\<close> whose scheme is http or
  https in any case, whose host is made of ASCII letters, digits, hyphens and dots, has a
  last label that starts with a letter and holds no \<^verbatim>\<open>xn--\<close>, and whose path is made of
  ASCII letters, digits, hyphens, underscores, tildes and slashes. On these the
  constructor lowercases the scheme and the host and gives the empty path as \<^verbatim>\<open>/\<close>, the
  \<^verbatim>\<open>hostname\<close> setter takes a host of this form (and ignores what is not one), and
  \<^verbatim>\<open>toString()\<close> writes scheme, \<^verbatim>\<open>://\<close>, host and path. Every other string is outside
  the model, which answers \<open>None\<close> for it: that is the answer for a string that the
  constructor rejects, and it says nothing of an address with a port, a query, a fragment,
  dots in the path or anything else the model leaves out. A result that rests on the
  model uses it at an address of its domain only (\<open>isModelledAddress\<close>).
\<close>

record url =
  urlScheme :: string
  urlHost :: string
  urlPath :: string

definition isAsciiAlpha :: "char \<Rightarrow> bool" where
  "isAsciiAlpha c =
     (let n = (of_char c :: nat) in (65 \<le> n \<and> n \<le> 90) \<or> (97 \<le> n \<and> n \<le> 122))"

definition isAsciiDigit :: "char \<Rightarrow> bool" where
  "isAsciiDigit c = (let n = (of_char c :: nat) in 48 \<le> n \<and> n \<le> 57)"

definition isPlainHostChar :: "char \<Rightarrow> bool" where
  "isPlainHostChar c = (isAsciiAlpha c \<or> isAsciiDigit c \<or> c = CHR ''-'' \<or> c = CHR ''.'')"

definition isPlainPathChar :: "char \<Rightarrow> bool" where
  "isPlainPathChar c =
     (isAsciiAlpha c \<or> isAsciiDigit c \<or> c = CHR ''-'' \<or> c = CHR ''_'' \<or> c = CHR ''~''
        \<or> c = CHR ''/'')"

definition isPlainHost :: "string \<Rightarrow> bool" where
  "isPlainHost h =
     (h \<noteq> [] \<and> list_all isPlainHostChar h
      \<and> (case last (split CHR ''.'' h) of [] \<Rightarrow> False | c # _ \<Rightarrow> isAsciiAlpha c)
      \<and> occurrences ''xn--'' (toLowerCase h) = 0)"

definition modelNewURL :: "string \<Rightarrow> url option" where
  "modelNewURL s =
     (let scheme = toLowerCase (takeWhile (\<lambda>c. c \<noteq> CHR '':'') s);
          rest = dropWhile (\<lambda>c. c \<noteq> CHR '':'') s;
          host = takeWhile (\<lambda>c. c \<noteq> CHR ''/'') (drop 3 rest);
          path = dropWhile (\<lambda>c. c \<noteq> CHR ''/'') (drop 3 rest)
      in if (scheme = ''http'' \<or> scheme = ''https'') \<and> startsWith rest ''://''
            \<and> isPlainHost host \<and> list_all isPlainPathChar path
         then Some \<lparr>urlScheme = scheme, urlHost = toLowerCase host,
                     urlPath = (if path = [] then ''/'' else path)\<rparr>
         else None)"

definition isModelledAddress :: "string \<Rightarrow> bool" where
  "isModelledAddress s = (modelNewURL s \<noteq> None)"

definition modelSetHostname :: "url \<Rightarrow> string \<Rightarrow> url" where
  "modelSetHostname u h = (if isPlainHost h then u\<lparr>urlHost := toLowerCase h\<rparr> else u)"

definition modelToString :: "url \<Rightarrow> string" where
  "modelToString u = urlScheme u @ ''://'' @ urlHost u @ urlPath u"

text \<open>Collaborators whose URL class is the model.\<close>

definition withModelURL :: "'u env \<Rightarrow> url env" where
  "withModelURL env =
     \<lparr>toClassName = toClassName env, book = book env, topicPath = topicPath env,
      baseConvert = baseConvert env, nodeToString = nodeToString env, newURL = modelNewURL,
      urlHostname = urlHost, urlSetHostname = modelSetHostname,
      urlToString = modelToString\<rparr>"

section \<open>Values for worked inputs\<close>

text \<open>A node whose accessors all answer with the empty or the absent value.\<close>

definition blankProps :: nodeProps where
  "blankProps =
     \<lparr>getNodeName = [], getDocument = (\<lambda>_. None), getTarget = None, getRole = None,
      getText = [], getContent = [], getTitle = None, getLevel = 0, getStyle = None,
      getType = [], getAttribute = (\<lambda>_. None), getHeadRows = [], getBodyRows = [],
      getFootRows = [], getRowBlocks = []\<rparr>"

text \<open>
  Collaborators for worked inputs: a class-name helper that lowercases and turns every
  character but ASCII letters and digits into a hyphen, a book that resolves a path to
  itself under \<^verbatim>\<open>/docs/\<close>, a base converter that answers a passthrough block with
  its content as it is and a preamble with a comment, and throws for any other kind, as
  the parser's converter does for a kind it has no method for, and the name of a node
  for the string of a node object.
\<close>

definition sampleClassName :: "string \<Rightarrow> string" where
  "sampleClassName name =
     map (\<lambda>c. if isAsciiAlpha c \<or> isAsciiDigit c then toLowerChar c else CHR ''-'') name"

definition sampleBase :: "node \<Rightarrow> string option \<Rightarrow> convertOpts option \<Rightarrow> error + string" where
  "sampleBase node transform opts =
     (let name = (if truthy transform then orEmpty transform else getNodeName (props node))
      in if name = ''pass'' then Inr (getContent (props node))
         else if name = ''preamble'' then Inr (''<!--preamble-->'')
         else Inl (Thrown (''undefined method convert_'' @ name)))"

definition sampleEnv :: "url env" where
  "sampleEnv =
     \<lparr>toClassName = sampleClassName, book = Some (\<lambda>path. ''/docs/'' @ path),
      topicPath = ''guide/intro.adoc'', baseConvert = sampleBase,
      nodeToString = (\<lambda>node. ''#<'' @ getNodeName (props node) @ ''>''),
      newURL = modelNewURL, urlHostname = urlHost, urlSetHostname = modelSetHostname,
      urlToString = modelToString\<rparr>"

section \<open>Names for parts of the renderers\<close>

text \<open>
  The definitions of this section name expressions that stand inside the renderers above,
  so that results can speak of them: the state of the converter once \<open>convert\<close> has
  logged its call and stored the node's document, the \<^verbatim>\<open>content\<close> constant of the
  section renderer, the \<^verbatim>\<open>list\<close> constant of the ordered-list renderer, the
  \<^verbatim>\<open>content\<close> constant of \<^verbatim>\<open>tableToBlock\<close>, and the value of \<^verbatim>\<open>href\<close> in the
  anchor renderer after its first \<^verbatim>\<open>if\<close> block.
\<close>

definition entered :: "node \<Rightarrow> string option \<Rightarrow> converter \<Rightarrow> converter" where
  "entered node transform s =
     (logTo (Debug, [''convert node: transform='' @ interpolate transform @ '' name=''
          @ (if truthy transform then orEmpty transform else getNodeName (props node))]) s)
       \<lparr>doc := Some (getDocument (props node))\<rparr>"


definition olistHtml :: "string list \<Rightarrow> string" where
  "olistHtml rendered =
     (if join [] rendered \<noteq> [] then ''<ol>'' @ join [] rendered @ ''</ol>'' else [])"

definition tableContent :: "node \<Rightarrow> string" where
  "tableContent node =
     ''\<newline>    '' @ processRows (getHeadRows (props node))
     @ ''\<newline>    '' @ processRows (getBodyRows (props node))
     @ ''\<newline>    '' @ processRows (getFootRows (props node))"

definition anchorHref :: "'u env \<Rightarrow> string option \<Rightarrow> string option" where
  "anchorHref env target =
     (if truthy target then
        (let h = orEmpty target;
             h1 = (if endsWith h ''.franklin'' then sliceEnd h (length ''.franklin'') else h)
         in Some (case newURL env h1 of
                    Some url \<Rightarrow>
                      urlToString env
                        (urlSetHostname env url (normalizeHostname (urlHostname env url)))
                  | None \<Rightarrow> h1))
      else target)"


text \<open>
  A pattern straddles the seam of two texts when a proper, non-empty prefix of it ends the
  first text and the rest of it starts the second.
\<close>

definition straddles :: "string \<Rightarrow> string \<Rightarrow> string \<Rightarrow> bool" where
  "straddles pat a b =
     (\<exists>k\<in>{1..<length pat}. endsWith a (take k pat) \<and> startsWith b (drop k pat))"

text \<open>Nodes for worked inputs.\<close>

definition franklinLink :: node where
  "franklinLink =
     Node (blankProps\<lparr>getNodeName := ''inline_anchor'',
             getTarget := Some ''https://Example.com/a---b.franklin'',
             getText := ''link''\<rparr>) []"

definition hyphenHostLink :: node where
  "hyphenHostLink =
     Node (blankProps\<lparr>getNodeName := ''inline_anchor'',
             getTarget := Some ''https://My---Host.example.com/a---b.franklin'',
             getText := ''link''\<rparr>) []"

definition bareAnchor :: node where
  "bareAnchor = Node (blankProps\<lparr>getNodeName := ''inline_anchor'', getText := ''link''\<rparr>) []"

definition contentOnlyItem :: node where
  "contentOnlyItem =
     Node (blankProps\<lparr>getNodeName := ''list_item'', getContent := ''<p>nested</p>''\<rparr>)
       [Node (blankProps\<lparr>getNodeName := ''paragraph'', getContent := ''nested''\<rparr>) []]"

definition passBlock :: node where
  "passBlock = Node (blankProps\<lparr>getNodeName := ''pass'', getContent := ''<b>raw</b>''\<rparr>) []"

definition bogusBlock :: node where
  "bogusBlock = Node (blankProps\<lparr>getNodeName := ''bogus''\<rparr>) []"

definition stepList :: node where
  "stepList =
     Node (blankProps\<lparr>getNodeName := ''olist'',
             getAttribute := (\<lambda>k. if k = ''role'' then Some ''procedure'' else None)\<rparr>)
       [Node (blankProps\<lparr>getNodeName := ''list_item'', getText := ''one''\<rparr>) []]"

definition headlessTable :: node where
  "headlessTable =
     Node (blankProps\<lparr>getNodeName := ''table'', getTitle := Some ''Ports'',
             getBodyRows := [[''a'', ''b'']]\<rparr>) []"

definition headedTable :: node where
  "headedTable =
     Node (blankProps\<lparr>getNodeName := ''table'', getTitle := Some ''Ports'',
             getHeadRows := [[''h'', ''k'']], getBodyRows := [[''a'', ''b'']]\<rparr>) []"








section \<open>The dispatcher, unfolded\<close>

declare convert.simps [simp del] section_tpl.simps [simp del] ulist.simps [simp del]
  olist.simps [simp del] list_item.simps [simp del] showNat.simps [simp del]

lemma logTo_depth [simp]: "sectionDepth (logTo e s) = sectionDepth s"
  by (simp add: logTo_def)

lemma entered_depth [simp]: "sectionDepth (entered node transform s) = sectionDepth s"
  by (simp add: entered_def)

lemma convert_missing:
  assumes "lookupTemplate (if truthy transform then orEmpty transform
                           else getNodeName (props node)) = None"
  shows "convert env node transform opts s =
     (case baseConvert env node transform opts of
        Inl e \<Rightarrow>
          (Inl e,
           logTo (Warn, [''handling node with base template...'',
                    (if truthy transform then orEmpty transform else getNodeName (props node))])
             (entered node transform s))
      | Inr out \<Rightarrow>
          (Inr (Str out),
           logTo (Info, [''handled node with base template: '',
                    (if truthy transform then orEmpty transform else getNodeName (props node)),
                    out])
             (logTo (Warn, [''handling node with base template...'',
                    (if truthy transform then orEmpty transform else getNodeName (props node))])
                (entered node transform s))))"
proof (cases node)
  case (Node p bs)
  show ?thesis
    unfolding Node
    apply (subst convert.simps)
    apply (simp only: Let_def assms [unfolded Node node.sel] option.case entered_def node.sel)
    done
qed

lemma convert_inherited:
  assumes "lookupTemplate (if truthy transform then orEmpty transform
                           else getNodeName (props node)) = Some (Inherited m)"
  shows "convert env node transform opts s = (callInherited m node, entered node transform s)"
proof (cases node)
  case (Node p bs)
  show ?thesis
    unfolding Node
    apply (subst convert.simps)
    apply (simp only: Let_def assms [unfolded Node node.sel] option.case member.case
             entered_def node.sel)
    done
qed





lemma olist_unfold:
  "olist env node s =
     (case convertBlocks env (getBlocks node) s of
        (Inl e, s1) \<Rightarrow> (Inl e, s1)
      | (Inr rendered, s1) \<Rightarrow>
          (if getAttribute (props node) ''role'' \<noteq> Some ''procedure''
           then (Inr (if join [] rendered \<noteq> [] then ''<ol>'' @ join [] rendered @ ''</ol>'' else []), s1)
           else (Inr (makeBlock env ''procedure''
                   (if join [] rendered \<noteq> [] then ''<ol>'' @ join [] rendered @ ''</ol>'' else [])
                   [] True), s1)))"
proof (cases node)
  case (Node p bs)
  show ?thesis
    unfolding Node
    apply (subst olist.simps)
    apply (simp only: Let_def node.sel)
    done
qed

lemma list_item_unfold:
  "list_item env node s =
     (if getText (props node) = [] \<and> getContent (props node) = [] then (Inr [], s)
      else (case convertBlocks env (getBlocks node) s of
              (Inl e, s1) \<Rightarrow> (Inl e, s1)
            | (Inr rendered, s1) \<Rightarrow>
                (Inr (''<li>''
                   @ (if getText (props node) \<noteq> []
                      then ''<p>'' @ getText (props node) @ ''</p>''
                        @ (if join [] rendered = [] then getContent (props node) else join [] rendered)
                      else [])
                   @ ''</li>''), s1)))"
proof (cases node)
  case (Node p bs)
  show ?thesis
    unfolding Node
    apply (subst list_item.simps)
    apply (simp only: Let_def node.sel)
    done
qed



section \<open>Occurrences in a concatenation\<close>











section \<open>Section content without containers\<close>




lemma no_straddle_empty: "\<not> straddles pat [] b" "\<not> straddles pat a []"
  unfolding straddles_def by (auto simp: endsWith_def startsWith_def)







section \<open>White space around markup\<close>

lemma trim_tagged:
  "\<not> isWhiteSpace a \<Longrightarrow> \<not> isWhiteSpace b \<Longrightarrow> trim (a # xs @ [b]) = a # xs @ [b]"
  by (simp add: trim_def)

lemma trim_empty: "trim [] = []"
  by (simp add: trim_def)

lemma angle_not_space: "\<not> isWhiteSpace CHR ''<''" "\<not> isWhiteSpace CHR ''>''"
  by (simp_all add: isWhiteSpace_def)

section \<open>Hostname normalization\<close>

lemma toLowerChar_idem: "toLowerChar (toLowerChar c) = toLowerChar c"
  unfolding toLowerChar_def Let_def
  by (auto simp: of_char_of [where ?'a = nat])

lemma toLowerChar_hyphen: "toLowerChar c = CHR ''-'' \<longleftrightarrow> c = CHR ''-''"
proof (cases "(65 \<le> (of_char c :: nat) \<and> (of_char c :: nat) \<le> 90)
              \<or> (192 \<le> (of_char c :: nat) \<and> (of_char c :: nat) \<le> 222 \<and> (of_char c :: nat) \<noteq> 215)")
  case True
  then have low: "toLowerChar c = char_of ((of_char c :: nat) + 32)"
    by (simp add: toLowerChar_def Let_def)
  have "(of_char (toLowerChar c) :: nat) = (of_char c + 32) mod 256"
    unfolding low by (simp add: of_char_of)
  with True have "(of_char (toLowerChar c) :: nat) \<noteq> 45" by auto
  then have a: "toLowerChar c \<noteq> CHR ''-''" by auto
  from True have "(of_char c :: nat) \<noteq> 45" by auto
  then have b: "c \<noteq> CHR ''-''" by auto
  from a b show ?thesis by simp
next
  case False
  then have "toLowerChar c = c" unfolding toLowerChar_def Let_def by auto
  then show ?thesis by simp
qed

lemma toLowerCase_hyphens:
  "\<forall>x\<in>set r. x = CHR ''-'' \<Longrightarrow> toLowerCase r = r"
  by (induction r) (auto simp: toLowerCase_def toLowerChar_hyphen)

lemma takeWhile_no_head: "t = [] \<or> \<not> P (hd t) \<Longrightarrow> takeWhile P t = []"
  by (cases t) auto

lemma dropWhile_no_head: "t = [] \<or> \<not> P (hd t) \<Longrightarrow> dropWhile P t = t"
  by (cases t) auto

lemma collapseHyphens_run:
  assumes r: "\<forall>x\<in>set r. x = CHR ''-''" and ne: "r \<noteq> []"
    and t: "t = [] \<or> hd t \<noteq> CHR ''-''"
  shows "collapseHyphens (r @ t) = (if 3 \<le> length r then ''--'' else r) @ collapseHyphens t"
proof -
  let ?P = "\<lambda>x. x = CHR ''-''"
  have tw: "takeWhile ?P (r @ t) = r"
    using r t by (simp add: takeWhile_append2 takeWhile_no_head)
  have dw: "dropWhile ?P (r @ t) = t"
    using r t by (simp add: dropWhile_append2 dropWhile_no_head)
  obtain c cs where rt: "r @ t = c # cs" and c: "c = CHR ''-''"
    using r ne by (cases r) auto
  have "collapseHyphens (c # cs)
          = (if 3 \<le> length (takeWhile ?P (c # cs)) then ''--'' else takeWhile ?P (c # cs))
              @ collapseHyphens (dropWhile ?P (c # cs))"
    unfolding c by (simp add: Let_def)
  then show ?thesis unfolding rt [symmetric] tw dw .
qed

lemma collapseHyphens_head:
  "s = [] \<or> hd s \<noteq> CHR ''-'' \<Longrightarrow> collapseHyphens s = [] \<or> hd (collapseHyphens s) \<noteq> CHR ''-''"
  by (cases s) auto

lemma toLowerCase_head:
  "s = [] \<or> hd s \<noteq> CHR ''-'' \<Longrightarrow> toLowerCase s = [] \<or> hd (toLowerCase s) \<noteq> CHR ''-''"
  by (cases s) (auto simp: toLowerCase_def toLowerChar_hyphen)

lemma toLowerCase_append: "toLowerCase (a @ b) = toLowerCase a @ toLowerCase b"
  by (simp add: toLowerCase_def)

lemma collapse_lower_fixed:
  "collapseHyphens (toLowerCase (collapseHyphens s)) = toLowerCase (collapseHyphens s)"
proof (induction s rule: collapseHyphens.induct)
  case 1
  then show ?case by (simp add: toLowerCase_def)
next
  case (2 c cs)
  let ?P = "\<lambda>x. x = CHR ''-''"
  show ?case
  proof (cases "c = CHR ''-''")
    case False
    then have "toLowerChar c \<noteq> CHR ''-''" by (simp add: toLowerChar_hyphen)
    with False 2 show ?thesis by (simp add: toLowerCase_def)
  next
    case True
    define run where "run = takeWhile ?P (c # cs)"
    define rest where "rest = dropWhile ?P (c # cs)"
    define out where "out = (if 3 \<le> length run then ''--'' else run)"
    have run: "\<forall>x\<in>set run. x = CHR ''-''"
      unfolding run_def using set_takeWhileD by fastforce
    have run_ne: "run \<noteq> []" unfolding run_def using True by simp
    have rest_hd: "rest = [] \<or> hd rest \<noteq> CHR ''-''"
      unfolding rest_def using hd_dropWhile [of ?P "c # cs"] by blast
    have ih: "collapseHyphens (toLowerCase (collapseHyphens rest)) = toLowerCase (collapseHyphens rest)"
      using 2(1) [OF True refl refl] unfolding rest_def .
    have split: "c # cs = run @ rest" unfolding run_def rest_def by simp
    have res: "collapseHyphens (c # cs) = out @ collapseHyphens rest"
      unfolding split out_def using collapseHyphens_run [OF run run_ne rest_hd] .
    have out: "\<forall>x\<in>set out. x = CHR ''-''" unfolding out_def using run by simp
    have out_ne: "out \<noteq> []" unfolding out_def using run_ne by simp
    have out_len: "\<not> 3 \<le> length out" unfolding out_def by simp
    have low: "toLowerCase (collapseHyphens (c # cs)) = out @ toLowerCase (collapseHyphens rest)"
      unfolding res toLowerCase_append toLowerCase_hyphens [OF out] ..
    have hd2: "toLowerCase (collapseHyphens rest) = []
                 \<or> hd (toLowerCase (collapseHyphens rest)) \<noteq> CHR ''-''"
      using rest_hd collapseHyphens_head toLowerCase_head by blast
    show ?thesis
      unfolding low collapseHyphens_run [OF out out_ne hd2] using out_len ih by simp
  qed
qed

lemma toLowerCase_idem: "toLowerCase (toLowerCase s) = toLowerCase s"
  by (simp add: toLowerCase_def toLowerChar_idem)

text \<open>
  C7: the hostname normalization of the anchor renderer (every run of three or more
  hyphens collapsed to two, then lowercased) is idempotent: applied twice to any string it
  gives what it gives applied once.
\<close>

theorem normalizeHostname_idempotent:
  "normalizeHostname (normalizeHostname h) = normalizeHostname h"
  unfolding normalizeHostname_def collapse_lower_fixed toLowerCase_idem ..

section \<open>The anchor renderer\<close>

lemma inline_anchor_link:
  assumes "getRole (props node) \<noteq> Some ''bare include''"
  shows \<open>inline_anchor env node
           = Inr (''<a href="'' @ interpolate (anchorHref env (getTarget (props node))) @ ''">''
                    @ getText (props node) @ ''</a>'')\<close>
  using assms by (simp add: inline_anchor_def anchorHref_def Let_def)

lemma franklin_address_modelled: "isModelledAddress ''https://Example.com/a---b''"
  by code_simp

lemma franklin_href:
  "anchorHref (withModelURL env) (Some ''https://Example.com/a---b.franklin'')
     = Some ''https://example.com/a---b''"
  by code_simp

text \<open>
  C1, as the code has it: for a non-include inline-anchor node whose target is
  \<^verbatim>\<open>https://Example.com/a---b.franklin\<close>, the anchor renderer returns an anchor tag whose
  href attribute is exactly \<^verbatim>\<open>https://example.com/a---b\<close>: the \<^verbatim>\<open>.franklin\<close> suffix is
  stripped and the hostname is lowercased; runs of hyphens are collapsed in the hostname
  only, so the run of three hyphens in the path stays.
\<close>

theorem inline_anchor_franklin_example:
  assumes "getTarget (props node) = Some ''https://Example.com/a---b.franklin''"
    and "getRole (props node) \<noteq> Some ''bare include''"
  shows \<open>inline_anchor (withModelURL env) node
           = Inr (''<a href="https://example.com/a---b">'' @ getText (props node) @ ''</a>'')\<close>
  unfolding inline_anchor_link [OF assms(2)] assms(1) franklin_href
  by (simp add: interpolate_def)

text \<open>
  The statement above at a node with that target, no role and the text \<^verbatim>\<open>link\<close>.
\<close>

theorem inline_anchor_franklin_example_witness:
  \<open>getTarget (props franklinLink) = Some ''https://Example.com/a---b.franklin''
   \<and> getRole (props franklinLink) \<noteq> Some ''bare include''
   \<and> inline_anchor (withModelURL sampleEnv) franklinLink
        = Inr ''<a href="https://example.com/a---b">link</a>''\<close>
proof -
  have t: "getTarget (props franklinLink) = Some ''https://Example.com/a---b.franklin''"
    by (simp add: franklinLink_def blankProps_def)
  have r: "getRole (props franklinLink) \<noteq> Some ''bare include''"
    by (simp add: franklinLink_def blankProps_def)
  have x: "getText (props franklinLink) = ''link''"
    by (simp add: franklinLink_def blankProps_def)
  from inline_anchor_franklin_example [OF t r, of sampleEnv] t r x show ?thesis by simp
qed

text \<open>
  C1 as stated fails: the href of the anchor rendered for that target is not
  \<^verbatim>\<open>https://example.com/a--b\<close>.
\<close>

theorem inline_anchor_path_hyphens_counterexample:
  \<open>inline_anchor sampleEnv franklinLink \<noteq> Inr ''<a href="https://example.com/a--b">link</a>''\<close>
  by code_simp

text \<open>
  The hyphens of the path stay and those of a hostname are collapsed.
\<close>

lemma inline_anchor_hyphen_runs:
  \<open>inline_anchor sampleEnv franklinLink = Inr ''<a href="https://example.com/a---b">link</a>''\<close>
  \<open>inline_anchor sampleEnv hyphenHostLink
     = Inr ''<a href="https://my--host.example.com/a---b">link</a>''\<close>
  by code_simp+

lemma anchorHref_falsy:
  "anchorHref env None = None"
  "anchorHref env (Some []) = Some []"
  by (simp_all add: anchorHref_def truthy_def)

lemma inline_anchor_empty_target:
  assumes "getTarget (props node) = Some []"
    and "getRole (props node) \<noteq> Some ''bare include''"
  shows \<open>inline_anchor env node = Inr (''<a href="">'' @ getText (props node) @ ''</a>'')\<close>
  unfolding inline_anchor_link [OF assms(2)] assms(1) anchorHref_falsy
  by (simp add: interpolate_def)

lemma inline_anchor_absent_target:
  assumes "getTarget (props node) = None"
    and "getRole (props node) \<noteq> Some ''bare include''"
  shows \<open>inline_anchor env node = Inr (''<a href="undefined">'' @ getText (props node) @ ''</a>'')\<close>
  unfolding inline_anchor_link [OF assms(2)] assms(1) anchorHref_falsy
  by (simp add: interpolate_def)

text \<open>
  C10 at a non-include inline-anchor node with no target (\<^verbatim>\<open>getTarget()\<close> is
  \<^verbatim>\<open>undefined\<close>): no exception is raised and nothing is stripped or normalized, but the
  href attribute of the anchor returned is the text \<^verbatim>\<open>undefined\<close>, not the empty string.
  For the empty target the href is empty (\<open>inline_anchor_empty_target\<close>).
\<close>

theorem inline_anchor_absent_target_undefined:
  \<open>getTarget (props bareAnchor) = None
   \<and> getRole (props bareAnchor) \<noteq> Some ''bare include''
   \<and> inline_anchor sampleEnv bareAnchor = Inr ''<a href="undefined">link</a>''\<close>
  by code_simp

section \<open>List items and ordered lists\<close>

lemma list_item_no_text:
  assumes "getText (props node) = []" and "getContent (props node) \<noteq> []"
    and "convertBlocks env (getBlocks node) s = (Inr rendered, s1)"
  shows "list_item env node s = (Inr ''<li></li>'', s1)"
  unfolding list_item_unfold using assms by simp

lemma list_item_with_text:
  assumes "getText (props node) \<noteq> []"
    and "convertBlocks env (getBlocks node) s = (Inr rendered, s1)"
  shows "list_item env node s
           = (Inr (''<li><p>'' @ getText (props node) @ ''</p>''
                     @ (if join [] rendered = [] then getContent (props node) else join [] rendered)
                     @ ''</li>''), s1)"
  unfolding list_item_unfold using assms by simp

lemma list_item_dropped:
  assumes "getText (props node) = []" and "getContent (props node) = []"
  shows "list_item env node s = (Inr [], s)"
  unfolding list_item_unfold using assms by simp

text \<open>
  C2 at a list item with no inline text and one nested paragraph: the item is kept (it has
  sub-content, and its block renders to \<^verbatim>\<open><p>nested</p>\<close>), but the renderer returns the
  empty element \<^verbatim>\<open><li></li>\<close>: the nested content is not inside it. With inline text the
  nested content follows the leading paragraph (\<open>list_item_with_text\<close>), and an item with
  neither is the empty string (\<open>list_item_dropped\<close>).
\<close>

theorem list_item_content_without_text_lost:
  "getText (props contentOnlyItem) = []
   \<and> getContent (props contentOnlyItem) = ''<p>nested</p>''
   \<and> fst (convertBlocks sampleEnv (getBlocks contentOnlyItem) newConverter) = Inr [''<p>nested</p>'']
   \<and> fst (list_item sampleEnv contentOnlyItem newConverter) = Inr ''<li></li>''"
  by code_simp

lemma trim_olistHtml: "trim (olistHtml rendered) = olistHtml rendered"
proof (cases "join [] rendered = []")
  case True
  then show ?thesis by (simp add: olistHtml_def trim_empty)
next
  case False
  have "''<ol>'' @ join [] rendered @ ''</ol>''
          = CHR ''<'' # (''ol>'' @ join [] rendered @ ''</ol'') @ [CHR ''>'']" by simp
  then show ?thesis
    using False trim_tagged [OF angle_not_space] by (simp only: olistHtml_def if_True simp_thms)
qed

text \<open>
  C5: when the items of an ordered list render without an exception, the result of the
  ordered-list renderer is, for the role \<^verbatim>\<open>procedure\<close>, the rendered \<^verbatim>\<open><ol>\<close> list as the
  single cell of a block whose class is the class name of \<^verbatim>\<open>procedure\<close>, and for any
  other or no role the bare list (the empty string when no item renders), never wrapped.
\<close>

theorem olist_procedure_wrapping:
  assumes "convertBlocks env (getBlocks node) s = (Inr rendered, s1)"
  shows \<open>olist env node s =
     (Inr (if getAttribute (props node) ''role'' = Some ''procedure''
           then ''\<newline>      <div class="'' @ toClassName env ''procedure'' @ ''">\<newline>        ''
                  @ ''<div><div>\<newline>'' @ olistHtml rendered @ ''\<newline></div></div>''
                  @ ''\<newline>      </div>''
           else olistHtml rendered), s1)\<close>
  unfolding olist_unfold assms
  by (simp add: makeBlock_def olistHtml_def [symmetric] trim_olistHtml)

lemma olist_throws:
  "convertBlocks env (getBlocks node) s = (Inl e, s1) \<Longrightarrow> olist env node s = (Inl e, s1)"
  unfolding olist_unfold by simp

text \<open>
  The statement above at an ordered list of one item with the role \<^verbatim>\<open>procedure\<close>.
\<close>

theorem olist_procedure_wrapping_witness:
  \<open>fst (convertBlocks sampleEnv (getBlocks stepList) newConverter) = Inr [''<li><p>one</p></li>'']
   \<and> getAttribute (props stepList) ''role'' = Some ''procedure''
   \<and> fst (olist sampleEnv stepList newConverter)
        = Inr (''\<newline>      <div class="procedure">\<newline>        <div><div>\<newline>''
                 @ ''<ol><li><p>one</p></li></ol>'' @ ''\<newline></div></div>\<newline>      </div>'')\<close>
proof -
  have f: "fst (convertBlocks sampleEnv (getBlocks stepList) newConverter)
             = Inr [''<li><p>one</p></li>'']"
    by code_simp
  then have h: "convertBlocks sampleEnv (getBlocks stepList) newConverter
                  = (Inr [''<li><p>one</p></li>''],
                     snd (convertBlocks sampleEnv (getBlocks stepList) newConverter))"
    by (simp add: prod_eq_iff)
  have r: "getAttribute (props stepList) ''role'' = Some ''procedure''" by code_simp
  have c: "toClassName sampleEnv ''procedure'' = ''procedure''" by code_simp
  have l: "olistHtml [''<li><p>one</p></li>''] = ''<ol><li><p>one</p></li></ol>''" by code_simp
  from olist_procedure_wrapping [OF h] f r show ?thesis by (simp add: c l)
qed

section \<open>Kinds without a renderer\<close>

lemma worked_kinds:
  "templates ''pass'' = None" "lookupTemplate ''pass'' = None"
  "templates ''bogus'' = None" "lookupTemplate ''bogus'' = None"
  "templates ''toString'' = None" "lookupTemplate ''toString'' = Some (Inherited Object_toString)"
  by code_simp+

text \<open>
  C4, as the code has it: when the effective kind of a node (the transform if one is given
  and not empty, else the node's own name) is no key of the \<^verbatim>\<open>templates\<close> object, neither
  one of its sixteen renderers nor a member inherited from \<^verbatim>\<open>Object.prototype\<close>,
  \<open>convert\<close> logs a warning and calls the base converter. When the base converter returns,
  \<open>convert\<close> returns exactly what it returned and logs an info line; when the base
  converter throws, the exception leaves \<open>convert\<close> and no info line is written.
\<close>

theorem convert_unregistered_falls_back:
  assumes "lookupTemplate (if truthy transform then orEmpty transform
                           else getNodeName (props node)) = None"
  shows "convert env node transform opts s =
     (case baseConvert env node transform opts of
        Inl e \<Rightarrow>
          (Inl e,
           logTo (Warn, [''handling node with base template...'',
                    (if truthy transform then orEmpty transform else getNodeName (props node))])
             (entered node transform s))
      | Inr out \<Rightarrow>
          (Inr (Str out),
           logTo (Info, [''handled node with base template: '',
                    (if truthy transform then orEmpty transform else getNodeName (props node)),
                    out])
             (logTo (Warn, [''handling node with base template...'',
                    (if truthy transform then orEmpty transform else getNodeName (props node))])
                (entered node transform s))))"
  using assms by (rule convert_missing)

text \<open>
  The statement above at a passthrough block, which the base converter of the worked
  inputs returns as it is.
\<close>

theorem convert_unregistered_falls_back_witness:
  "lookupTemplate (if truthy None then orEmpty None else getNodeName (props passBlock)) = None
   \<and> baseConvert sampleEnv passBlock None None = Inr ''<b>raw</b>''
   \<and> fst (convert sampleEnv passBlock None None newConverter) = Inr (Str ''<b>raw</b>'')
   \<and> console (snd (convert sampleEnv passBlock None None newConverter))
        = [(Debug, [''convert node: transform=undefined name=pass'']),
           (Warn, [''handling node with base template...'', ''pass'']),
           (Info, [''handled node with base template: '', ''pass'', ''<b>raw</b>''])]"
proof -
  have t: "lookupTemplate (if truthy None then orEmpty None else getNodeName (props passBlock))
             = None"
    by code_simp
  have b: "baseConvert sampleEnv passBlock None None = Inr ''<b>raw</b>''" by code_simp
  have c: "console (logTo (Info, [''handled node with base template: '',
                    (if truthy None then orEmpty None else getNodeName (props passBlock)),
                    ''<b>raw</b>''])
        (logTo (Warn, [''handling node with base template...'',
                    (if truthy None then orEmpty None else getNodeName (props passBlock))])
           (entered passBlock None newConverter)))
        = [(Debug, [''convert node: transform=undefined name=pass'']),
           (Warn, [''handling node with base template...'', ''pass'']),
           (Info, [''handled node with base template: '', ''pass'', ''<b>raw</b>''])]"
    by code_simp
  from convert_unregistered_falls_back [OF t, of sampleEnv None newConverter] t b c
  show ?thesis by simp
qed

text \<open>
  C4 as stated fails twice. The kind \<^verbatim>\<open>bogus\<close> has no renderer and the base converter
  throws for it: \<open>convert\<close> raises that exception. The kind \<^verbatim>\<open>toString\<close>, given as the
  transform, has no renderer either, but \<^verbatim>\<open>this.templates['toString']\<close> is the inherited
  function: \<open>convert\<close> returns what it answers, asks the base converter nothing and logs
  no warning.
\<close>

theorem convert_unregistered_counterexample:
  "templates ''bogus'' = None
   \<and> fst (convert sampleEnv bogusBlock None None newConverter)
        = Inl (Thrown ''undefined method convert_bogus'')
   \<and> templates ''toString'' = None
   \<and> fst (convert sampleEnv passBlock (Some ''toString'') None newConverter)
        = Inr (Str ''[object Undefined]'')
   \<and> console (snd (convert sampleEnv passBlock (Some ''toString'') None newConverter))
        = [(Debug, [''convert node: transform=toString name=toString''])]"
proof -
  have b: "lookupTemplate (if truthy None then orEmpty None else getNodeName (props bogusBlock))
             = None"
    by code_simp
  have t: "baseConvert sampleEnv bogusBlock None None = Inl (Thrown ''undefined method convert_bogus'')"
    by code_simp
  have i: "lookupTemplate (if truthy (Some ''toString'') then orEmpty (Some ''toString'')
                           else getNodeName (props passBlock)) = Some (Inherited Object_toString)"
    by code_simp
  have c: "console (entered passBlock (Some ''toString'') newConverter)
             = [(Debug, [''convert node: transform=toString name=toString''])]"
    by code_simp
  have v: "callInherited Object_toString passBlock = Inr (Str ''[object Undefined]'')"
    by (simp add: callInherited_def)
  from convert_missing [OF b, of sampleEnv None newConverter]
       convert_inherited [OF i, of sampleEnv None newConverter]
  show ?thesis by (simp add: t c v worked_kinds)
qed

text \<open>
  The members inherited under the other names: \<^verbatim>\<open>constructor\<close> returns the node itself,
  and calling any of the rest throws a TypeError.
\<close>

lemma convert_inherited_members:
  "fst (convert sampleEnv passBlock (Some ''constructor'') None newConverter) = Inr (Obj passBlock)"
  "fst (convert sampleEnv passBlock (Some ''__proto__'') None newConverter)
     = Inl (TypeError ''template is not a function'')"
  "fst (convert sampleEnv passBlock (Some ''valueOf'') None newConverter)
     = Inl (TypeError ''Cannot convert undefined or null to object'')"
proof -
  have i: "lookupTemplate (if truthy (Some ''constructor'') then orEmpty (Some ''constructor'')
                           else getNodeName (props passBlock)) = Some (Inherited Object_constructor)"
    "lookupTemplate (if truthy (Some ''__proto__'') then orEmpty (Some ''__proto__'')
                           else getNodeName (props passBlock)) = Some (Inherited Object_proto)"
    "lookupTemplate (if truthy (Some ''valueOf'') then orEmpty (Some ''valueOf'')
                           else getNodeName (props passBlock)) = Some (Inherited Object_valueOf)"
    by code_simp+
  show "fst (convert sampleEnv passBlock (Some ''constructor'') None newConverter)
          = Inr (Obj passBlock)"
    by (simp add: convert_inherited [OF i(1)] callInherited_def)
  show "fst (convert sampleEnv passBlock (Some ''__proto__'') None newConverter)
          = Inl (TypeError ''template is not a function'')"
    by (simp add: convert_inherited [OF i(2)] callInherited_def)
  show "fst (convert sampleEnv passBlock (Some ''valueOf'') None newConverter)
          = Inl (TypeError ''Cannot convert undefined or null to object'')"
    by (simp add: convert_inherited [OF i(3)] callInherited_def)
qed

section \<open>Tables\<close>

lemma tableToBlock_unfold:
  \<open>tableToBlock env name node =
     ''\<newline>      <div class="'' @ toClassName env name
       @ (if getHeadRows (props node) = []
          then (if toClassName env ''headless'' \<noteq> [] then '' '' @ toClassName env ''headless'' else [])
          else (if toClassName env [] \<noteq> [] then '' '' @ toClassName env [] else []))
       @ ''">\<newline>        '' @ trim (tableContent node) @ ''\<newline>      </div>''\<close>
  by (simp add: tableToBlock_def makeBlock_def Let_def tableContent_def)

text \<open>
  C6: for a class-name helper that keeps \<^verbatim>\<open>headless\<close> and the empty string as they
  are, the class attribute of the block that \<^verbatim>\<open>tableToBlock\<close> returns is the class of the
  block's name followed by the variant \<^verbatim>\<open>headless\<close> when the table has no head row, and
  the class of the block's name alone when it has one.
\<close>

theorem tableToBlock_headless_iff_no_head:
  assumes "toClassName env ''headless'' = ''headless''" and "toClassName env [] = []"
  shows \<open>tableToBlock env name node =
     ''\<newline>      <div class="'' @ toClassName env name
       @ (if getHeadRows (props node) = [] then '' headless'' else [])
       @ ''">\<newline>        '' @ trim (tableContent node) @ ''\<newline>      </div>''\<close>
  unfolding tableToBlock_unfold assms by simp

text \<open>
  The statement above at a table without and at a table with a head row.
\<close>

theorem tableToBlock_headless_iff_no_head_witness:
  \<open>toClassName sampleEnv ''headless'' = ''headless'' \<and> toClassName sampleEnv [] = []
   \<and> tableToBlock sampleEnv ''table'' headlessTable
        = ''\<newline>      <div class="table headless">\<newline>        ''
            @ ''<div><div>a</div><div>b</div></div>'' @ ''\<newline>      </div>''
   \<and> tableToBlock sampleEnv ''table'' headedTable
        = ''\<newline>      <div class="table">\<newline>        ''
            @ ''<div><div>h</div><div>k</div></div>\<newline>    <div><div>a</div><div>b</div></div>''
            @ ''\<newline>      </div>''\<close>
proof -
  have a: "toClassName sampleEnv ''headless'' = ''headless''" by code_simp
  have b: "toClassName sampleEnv [] = []" by code_simp
  have c: "toClassName sampleEnv ''table'' = ''table''" by code_simp
  have h1: "getHeadRows (props headlessTable) = []" by code_simp
  have h2: "getHeadRows (props headedTable) \<noteq> []" by code_simp
  have t1: "trim (tableContent headlessTable) = ''<div><div>a</div><div>b</div></div>''"
    by code_simp
  have t2: "trim (tableContent headedTable)
              = ''<div><div>h</div><div>k</div></div>\<newline>    <div><div>a</div><div>b</div></div>''"
    by code_simp
  from tableToBlock_headless_iff_no_head [OF a b, of "''table''" headlessTable]
       tableToBlock_headless_iff_no_head [OF a b, of "''table''" headedTable]
  show ?thesis by (simp add: a b c h1 h2 t1 t2)
qed

lemma tableToBlock_nonempty: "tableToBlock env name node \<noteq> []"
  by (simp add: tableToBlock_unfold)

text \<open>
  C9: for a table with a non-empty title and no head row, the table renderer returns the
  block that \<^verbatim>\<open>tableToBlock\<close> builds under the title's name; that block is never the
  empty string, so the block named \<^verbatim>\<open>table\<close> is not used.
\<close>

theorem table_titled_headless_uses_title:
  assumes "truthy (getTitle (props node))" and "getHeadRows (props node) = []"
  shows \<open>table env node = tableToBlock env (orEmpty (getTitle (props node))) node
         \<and> tableToBlock env (orEmpty (getTitle (props node))) node \<noteq> []
         \<and> (\<exists>rest. table env node
               = ''\<newline>      <div class="'' @ toClassName env (orEmpty (getTitle (props node)))
                   @ rest)\<close>
proof -
  have a: "table env node = tableToBlock env (orEmpty (getTitle (props node))) node"
    using assms by (simp add: table_def Let_def tableToBlock_nonempty)
  have b: "tableToBlock env (orEmpty (getTitle (props node))) node \<noteq> []"
    by (rule tableToBlock_nonempty)
  have c: \<open>\<exists>rest. tableToBlock env (orEmpty (getTitle (props node))) node
               = ''\<newline>      <div class="'' @ toClassName env (orEmpty (getTitle (props node)))
                   @ rest\<close>
    by (subst tableToBlock_unfold) simp
  from a b c show ?thesis by simp
qed

text \<open>
  The statement above at a titled table without a head row.
\<close>

theorem table_titled_headless_uses_title_witness:
  \<open>truthy (getTitle (props headlessTable)) \<and> getHeadRows (props headlessTable) = []
   \<and> table sampleEnv headlessTable = tableToBlock sampleEnv ''Ports'' headlessTable
   \<and> table sampleEnv headlessTable
        = ''\<newline>      <div class="ports headless">\<newline>        ''
            @ ''<div><div>a</div><div>b</div></div>'' @ ''\<newline>      </div>''\<close>
proof -
  have t: "truthy (getTitle (props headlessTable))" by code_simp
  have h: "getHeadRows (props headlessTable) = []" by code_simp
  have o: "orEmpty (getTitle (props headlessTable)) = ''Ports''" by code_simp
  have v: \<open>tableToBlock sampleEnv ''Ports'' headlessTable
        = ''\<newline>      <div class="ports headless">\<newline>        ''
            @ ''<div><div>a</div><div>b</div></div>'' @ ''\<newline>      </div>''\<close>
    by code_simp
  from table_titled_headless_uses_title [OF t h, of sampleEnv] t h show ?thesis
    by (simp add: o v)
qed

section \<open>Sections\<close>




section \<open>The page\<close>




lemma image_without_book:
  assumes "book env = None" and "truthy (getAttribute (props node) ''target'')"
  shows "image env node = Inl (TypeError ''book is undefined: it has no resolve'')"
  using assms by (simp add: image_def)

lemma adoc2html_throws:
  assumes "asciidoctorConvert lib (convert env) content
             (case backend opts of None \<Rightarrow> ''franklin'' | Some b \<Rightarrow> b) (attributes opts)
           = Inl e"
  shows "adoc2html lib env content (opts\<lparr>plain := v\<rparr>) = Inl e"
  using assms by (simp add: adoc2html_def renderTree_def)




end
